theory Spec2Isabelle
  imports
    Complex_Main
    "HOL-Library.Multiset"
    "HOL-Library.Sublist"
    "HOL-Library.Char_ord"
    "HOL-Library.List_Lexorder"
begin

section \<open>The LASTRO dashboard: load, filter, aggregate\<close>

text \<open>
  A shallow embedding of \<^verbatim>\<open>07_dashboard_app.py\<close>. The script is one linear run:
  \<^verbatim>\<open>load_data\<close>, the sidebar controls, the filter block, the KPIs and the grouped tables.
  Each stage is a function here; the values the sidebar controls return are inputs.

  Conventions of the embedding:
  \<^item> text is a \<open>string\<close> of code points below 256 (Latin-1), one \<open>char\<close> for each;
    \<open>lower\<close> and \<open>strip\<close> are Python's \<^verbatim>\<open>str.lower\<close> and \<^verbatim>\<open>str.strip\<close> on these;
  \<^item> a value of the \<open>float64\<close> columns \<open>net_royalty\<close> and \<open>units\<close> is the rational it
    stands for; comparisons are exact, and a sum rounds every addition to the nearest
    \<open>float64\<close> (\<open>fadd\<close>); infinities do not occur;
  \<^item> a calendar date is its day number, a timestamp is a day number with the nanoseconds
    of the day;
  \<^item> a cell of a text column is a string or one of the two missing values of an
    \<open>object\<close> column, \<open>NaN\<close> and \<open>None\<close>;
  \<^item> what depends on the version of the libraries is a parameter: the regular
    expression engine beyond literal characters and the dot, whether \<^verbatim>\<open>astype(str)\<close>
    turns a missing value into text, the argsort of more than 16 keys, and the order of
    the additions in the sum of a long column.

  The monthly timeline, the option lists of the multiselects and the CSV export are
  presentation; no property below depends on them, and they are not modelled.
\<close>

subsection \<open>Data model\<close>

type_synonym date = int

type_synonym timestamp = "int \<times> nat"

datatype cell = NaN | PyNone | Str string

datatype error = Stopped | AttributeError | StreamlitAPIException | ReError

text \<open>
  One row of \<^verbatim>\<open>facts_normalized.parquet\<close> as \<^verbatim>\<open>pd.read_parquet\<close> returns it. The fields
  \<open>src_period\<close>, \<open>src_net_royalty\<close> and \<open>src_units\<close> hold what
  \<^verbatim>\<open>pd.to_datetime(..., errors="coerce")\<close> and \<^verbatim>\<open>pd.to_numeric(..., errors="coerce")\<close> make of
  the row's value: \<open>None\<close> is \<open>NaT\<close>, respectively \<open>NaN\<close>. \<open>src_text c\<close> is the value of
  the text column \<open>c\<close>.
\<close>

record src_row =
  src_period :: "timestamp option"
  src_net_royalty :: "rat option"
  src_units :: "rat option"
  src_text :: "string \<Rightarrow> cell"

record src_frame =
  src_columns :: "string list"
  src_rows :: "src_row list"

text \<open>
  One row of the frame \<^verbatim>\<open>load_data\<close> returns. \<open>cat r c\<close> is the value of the categorical
  column \<open>c\<close> (one of the eight columns of the loader's list), \<open>other r c\<close> the value of
  any further text column of the source (\<open>isrc\<close>, \<open>upc\<close>, ...).
\<close>

record row =
  period :: timestamp
  period_date :: date
  net_royalty :: rat
  units :: rat
  cat :: "string \<Rightarrow> string"
  other :: "string \<Rightarrow> cell"

record frame =
  extra_columns :: "string list"
  rows :: "row list"

subsection \<open>\<^verbatim>\<open>load_data\<close> (lines 12 to 44)\<close>

definition sem_pais :: string where
  "sem_pais = ''(sem pa'' @ [CHR 0xED] @ ''s)''"

definition cat_fills :: "(string \<times> string) list" where
  "cat_fills =
    [(''distributor'', ''(sem distribuidora)''),
     (''artist'', ''(sem artista)''),
     (''track_title'', ''(sem faixa)''),
     (''release_title'', ''(sem release)''),
     (''store'', ''(sem plataforma)''),
     (''country'', sem_pais),
     (''currency'', ''(sem moeda)''),
     (''classification'', ''incerto'')]"

definition fixed_columns :: "string list" where
  "fixed_columns = [''net_royalty'', ''units'', ''period'', ''period_date''] @ map fst cat_fills"

definition columns :: "frame \<Rightarrow> string list" where
  "columns f = fixed_columns @ extra_columns f"

text \<open>\<^verbatim>\<open>Series.astype(str)\<close> on an \<open>object\<close> column: \<^verbatim>\<open>str(x)\<close> of every value.\<close>

fun astype_str :: "cell \<Rightarrow> string" where
  "astype_str NaN = ''nan''"
| "astype_str PyNone = ''None''"
| "astype_str (Str s) = s"

text \<open>\<^verbatim>\<open>.replace({"nan": np.nan, "None": np.nan})\<close>: whole values, no substring.\<close>

definition replace_nan :: "string \<Rightarrow> cell" where
  "replace_nan s = (if s = ''nan'' \<or> s = ''None'' then NaN else Str s)"

fun fillna :: "string \<Rightarrow> cell \<Rightarrow> string" where
  "fillna fill (Str s) = s"
| "fillna fill _ = fill"

text \<open>The body of the loop of lines 29 to 42, for one column and one row.\<close>

definition fill_column :: "string list \<Rightarrow> string \<times> string \<Rightarrow> row \<Rightarrow> row" where
  "fill_column cols cf r =
     (case cf of (c, fill) \<Rightarrow>
        if c \<in> set cols
        then r\<lparr>cat := (cat r)(c := fillna fill (replace_nan (astype_str (other r c))))\<rparr>
        else r\<lparr>cat := (cat r)(c := fill)\<rparr>)"

definition fillna_num :: "rat option \<Rightarrow> rat" where
  "fillna_num v = (case v of None \<Rightarrow> 0 | Some x \<Rightarrow> x)"

text \<open>
  Lines 20 to 26 on one row: the numeric columns with \<open>NaN\<close> filled by \<open>0.0\<close>, and the row
  dropped (\<open>None\<close>) when its period is \<open>NaT\<close>.
\<close>

definition coerce_row :: "src_row \<Rightarrow> row option" where
  "coerce_row s =
     (case src_period s of
        None \<Rightarrow> None
      | Some ts \<Rightarrow>
          Some \<lparr>period = ts, period_date = fst ts,
                net_royalty = fillna_num (src_net_royalty s),
                units = fillna_num (src_units s),
                cat = (\<lambda>_. []), other = src_text s\<rparr>)"

text \<open>
  \<^verbatim>\<open>load_data\<close>. A missing file stops the session. \<^verbatim>\<open>df.get(c)\<close> of an absent column is
  \<open>None\<close>: \<^verbatim>\<open>pd.to_numeric(None, errors="coerce")\<close> is a float without \<^verbatim>\<open>fillna\<close>, and a
  \<open>period\<close> column of \<open>None\<close> has no \<^verbatim>\<open>.dt\<close>; both raise \<open>AttributeError\<close>.
\<close>

definition load_data :: "src_frame option \<Rightarrow> error + frame" where
  "load_data file =
     (case file of
        None \<Rightarrow> Inl Stopped
      | Some src \<Rightarrow>
          if ''net_royalty'' \<notin> set (src_columns src) then Inl AttributeError
          else if ''units'' \<notin> set (src_columns src) then Inl AttributeError
          else if ''period'' \<notin> set (src_columns src) then Inl AttributeError
          else Inr \<lparr>extra_columns = filter (\<lambda>c. c \<notin> set fixed_columns) (src_columns src),
                    rows = map (\<lambda>r. fold (fill_column (src_columns src)) cat_fills r)
                             (List.map_filter coerce_row (src_rows src))\<rparr>)"

subsection \<open>The sidebar (lines 57 to 80)\<close>

text \<open>\<^verbatim>\<open>Series.min()\<close> and \<^verbatim>\<open>Series.max()\<close>: undefined (\<open>NaN\<close>) on an empty column.\<close>

definition series_min :: "date list \<Rightarrow> date option" where
  "series_min ds = (case ds of [] \<Rightarrow> None | d # ds' \<Rightarrow> Some (fold min ds' d))"

definition series_max :: "date list \<Rightarrow> date option" where
  "series_max ds = (case ds of [] \<Rightarrow> None | d # ds' \<Rightarrow> Some (fold max ds' d))"

definition dmin :: "frame \<Rightarrow> date option" where
  "dmin df = series_min (map period_date (rows df))"

definition dmax :: "frame \<Rightarrow> date option" where
  "dmax df = series_max (map period_date (rows df))"

text \<open>
  What \<^verbatim>\<open>st.sidebar.date_input\<close> returns: a tuple of zero, one or two dates while a range
  is being picked, or one date.
\<close>

datatype date_value = DateTuple "date list" | DateScalar date

text \<open>
  \<^verbatim>\<open>st.sidebar.date_input("Periodo", value=(dmin, dmax), min_value=dmin, max_value=dmax)\<close>:
  the control rejects a value that is not a date, so it raises when \<open>dmin\<close> and \<open>dmax\<close>
  are undefined; otherwise it returns what the user picked.
\<close>

fun date_input :: "date option \<Rightarrow> date option \<Rightarrow> date_value \<Rightarrow> error + date_value" where
  "date_input (Some lo) (Some hi) picked = Inr picked"
| "date_input _ _ picked = Inl StreamlitAPIException"

text \<open>Lines 62 to 65.\<close>

fun date_bounds :: "date_value \<Rightarrow> date \<Rightarrow> date \<Rightarrow> date \<times> date" where
  "date_bounds (DateTuple [a, b]) lo hi = (a, b)"
| "date_bounds _ lo hi = (lo, hi)"

text \<open>The code points below 256 that \<^verbatim>\<open>str.isspace\<close> accepts, which \<^verbatim>\<open>str.strip\<close> removes.\<close>

definition is_space :: "char \<Rightarrow> bool" where
  "is_space c \<longleftrightarrow>
     c \<in> set [CHR '' '', CHR 0x09, CHR 0x0A, CHR 0x0B, CHR 0x0C, CHR 0x0D,
              CHR 0x1C, CHR 0x1D, CHR 0x1E, CHR 0x1F, CHR 0x85, CHR 0xA0]"

definition strip :: "string \<Rightarrow> string" where
  "strip s = rev (dropWhile is_space (rev (dropWhile is_space s)))"

text \<open>
  The letters below 256 that \<^verbatim>\<open>str.lower\<close> changes, and what it changes them to: A to Z, and
  the capital letters of Latin-1 from U+00C0 to U+00DE without the sign U+00D7.
\<close>

definition upper_letters :: string where
  "upper_letters =
     ''ABCDEFGHIJKLMNOPQRSTUVWXYZ'' @
       [CHR 0xC0, CHR 0xC1, CHR 0xC2, CHR 0xC3, CHR 0xC4, CHR 0xC5, CHR 0xC6, CHR 0xC7,
        CHR 0xC8, CHR 0xC9, CHR 0xCA, CHR 0xCB, CHR 0xCC, CHR 0xCD, CHR 0xCE, CHR 0xCF,
        CHR 0xD0, CHR 0xD1, CHR 0xD2, CHR 0xD3, CHR 0xD4, CHR 0xD5, CHR 0xD6, CHR 0xD8,
        CHR 0xD9, CHR 0xDA, CHR 0xDB, CHR 0xDC, CHR 0xDD, CHR 0xDE]"

definition lower_letters :: string where
  "lower_letters =
     ''abcdefghijklmnopqrstuvwxyz'' @
       [CHR 0xE0, CHR 0xE1, CHR 0xE2, CHR 0xE3, CHR 0xE4, CHR 0xE5, CHR 0xE6, CHR 0xE7,
        CHR 0xE8, CHR 0xE9, CHR 0xEA, CHR 0xEB, CHR 0xEC, CHR 0xED, CHR 0xEE, CHR 0xEF,
        CHR 0xF0, CHR 0xF1, CHR 0xF2, CHR 0xF3, CHR 0xF4, CHR 0xF5, CHR 0xF6, CHR 0xF8,
        CHR 0xF9, CHR 0xFA, CHR 0xFB, CHR 0xFC, CHR 0xFD, CHR 0xFE]"

definition lower_char :: "char \<Rightarrow> char" where
  "lower_char c =
     (case map_of (zip upper_letters lower_letters) c of
        Some l \<Rightarrow> l
      | None \<Rightarrow> c)"

definition lower :: "string \<Rightarrow> string" where
  "lower s = map lower_char s"

text \<open>Line 78: \<^verbatim>\<open>search = st.sidebar.text_input(...).strip().lower()\<close>.\<close>

definition search_input :: "string \<Rightarrow> string" where
  "search_input typed = lower (strip typed)"

record params =
  start_date :: date
  end_date :: date
  sel_dist :: "string list"
  sel_class :: "string list"
  sel_store :: "string list"
  sel_country :: "string list"
  search :: string
  min_rev :: rat
  min_units :: rat

subsection \<open>The filter block (lines 85 to 109)\<close>

definition keep :: "(row \<Rightarrow> bool) \<Rightarrow> frame \<Rightarrow> frame" where
  "keep msk f = f\<lparr>rows := filter msk (rows f)\<rparr>"

definition date_filter :: "date \<Rightarrow> date \<Rightarrow> frame \<Rightarrow> frame" where
  "date_filter s e f = keep (\<lambda>r. period_date r \<ge> s \<and> period_date r \<le> e) f"

text \<open>\<^verbatim>\<open>if sel: f = f[f[c].isin(sel)]\<close>.\<close>

definition isin_filter :: "string \<Rightarrow> string list \<Rightarrow> frame \<Rightarrow> frame" where
  "isin_filter c sel f = (if sel \<noteq> [] then keep (\<lambda>r. cat r c \<in> set sel) f else f)"

text \<open>
  \<^verbatim>\<open>Series.str.contains(pat, na=False)\<close> searches \<open>pat\<close> as a regular expression
  (\<^verbatim>\<open>regex=True\<close> is the default). The characters below are the special ones of Python's
  \<^verbatim>\<open>re\<close>. A pattern of ordinary characters and dots is matched here; every other pattern
  is handed to the engine of the library, which returns the compiled matcher, or \<open>None\<close>
  when \<^verbatim>\<open>re.compile\<close> raises.

  \<open>na_as_text\<close> tells whether \<^verbatim>\<open>astype(str)\<close> turns a missing value into the text
  \<^verbatim>\<open>nan\<close> or \<^verbatim>\<open>None\<close> (a column of \<open>object\<close> type) or leaves it missing (a column of
  string type), which differs between versions of the dataframe library.
\<close>

record text_lib =
  re_engine :: "string \<Rightarrow> (string \<Rightarrow> bool) option"
  na_as_text :: bool

definition re_special :: "char list" where
  "re_special =
     [CHR ''.'', CHR ''^'', CHR ''$'', CHR ''*'', CHR ''+'', CHR ''?'', CHR ''{'', CHR ''}'',
      CHR ''['', CHR '']'', CHR 0x5C, CHR ''|'', CHR ''('', CHR '')'']"

fun match_here :: "string \<Rightarrow> string \<Rightarrow> bool" where
  "match_here [] s = True"
| "match_here (p # ps) [] = False"
| "match_here (p # ps) (c # cs) =
     ((if p = CHR ''.'' then c \<noteq> CHR 0x0A else p = c) \<and> match_here ps cs)"

fun re_search :: "string \<Rightarrow> string \<Rightarrow> bool" where
  "re_search pat [] = match_here pat []"
| "re_search pat (c # cs) = (match_here pat (c # cs) \<or> re_search pat cs)"

definition dots_and_literals :: "string \<Rightarrow> bool" where
  "dots_and_literals pat = list_all (\<lambda>c. c = CHR ''.'' \<or> c \<notin> set re_special) pat"

definition re_compile :: "text_lib \<Rightarrow> string \<Rightarrow> (string \<Rightarrow> bool) option" where
  "re_compile eng pat =
     (if dots_and_literals pat then Some (re_search pat) else re_engine eng pat)"

text \<open>
  The text of column \<open>c\<close> in a row, as \<^verbatim>\<open>f[c].astype(str).str.lower()\<close> sees it; \<open>None\<close>
  when the value is missing and stays missing.
\<close>

definition col_text :: "text_lib \<Rightarrow> string \<Rightarrow> row \<Rightarrow> string option" where
  "col_text eng c r =
     (if c \<in> set (map fst cat_fills) then Some (lower (cat r c))
      else (case other r c of
              Str s \<Rightarrow> Some (lower s)
            | v \<Rightarrow> if na_as_text eng then Some (lower (astype_str v)) else None))"

definition search_cols :: "string list" where
  "search_cols = [''track_title'', ''release_title'', ''artist'', ''isrc'', ''upc'']"

text \<open>
  The loop of lines 100 to 103: the mask starts at \<open>False\<close> and takes one column at a time;
  \<^verbatim>\<open>na=False\<close> makes a missing value no match.
\<close>

definition search_mask :: "text_lib \<Rightarrow> (string \<Rightarrow> bool) \<Rightarrow> frame \<Rightarrow> row \<Rightarrow> bool" where
  "search_mask eng m f =
     fold (\<lambda>c msk. if c \<in> set (columns f)
                    then (\<lambda>r. msk r \<or> (case col_text eng c r of Some t \<Rightarrow> m t | None \<Rightarrow> False))
                    else msk)
       search_cols (\<lambda>_. False)"

definition search_filter :: "text_lib \<Rightarrow> string \<Rightarrow> frame \<Rightarrow> error + frame" where
  "search_filter eng s f =
     (if s \<noteq> [] then
        (case re_compile eng s of
           None \<Rightarrow> Inl ReError
         | Some m \<Rightarrow> Inr (keep (search_mask eng m f) f))
      else Inr f)"

definition min_rev_filter :: "rat \<Rightarrow> frame \<Rightarrow> frame" where
  "min_rev_filter t f = (if t > 0 then keep (\<lambda>r. net_royalty r \<ge> t) f else f)"

definition min_units_filter :: "rat \<Rightarrow> frame \<Rightarrow> frame" where
  "min_units_filter t f = (if t > 0 then keep (\<lambda>r. units r \<ge> t) f else f)"

definition category_filters :: "params \<Rightarrow> frame \<Rightarrow> frame" where
  "category_filters p f =
     isin_filter ''country'' (sel_country p)
       (isin_filter ''store'' (sel_store p)
          (isin_filter ''classification'' (sel_class p)
             (isin_filter ''distributor'' (sel_dist p) f)))"

definition apply_filters :: "text_lib \<Rightarrow> params \<Rightarrow> frame \<Rightarrow> error + frame" where
  "apply_filters eng p df =
     (case search_filter eng (search p)
             (category_filters p (date_filter (start_date p) (end_date p) df)) of
        Inl e \<Rightarrow> Inl e
      | Inr f \<Rightarrow> Inr (min_units_filter (min_units p) (min_rev_filter (min_rev p) f)))"

subsection \<open>KPIs and grouped tables (lines 114 to 168)\<close>

text \<open>
  Addition of \<open>float64\<close>: the exact sum, rounded to the nearest number with a mantissa of
  53 bits, to the even mantissa on a tie. \<open>bits k\<close> is the number of binary digits of
  \<open>k\<close>, \<open>ilog2 a\<close> the exponent \<open>k\<close> with \<open>2 ^ k \<le> a < 2 ^ (k + 1)\<close> for a positive \<open>a\<close>; the
  exponent of the last mantissa bit is not below \<open>- 1074\<close> (subnormal numbers).
\<close>

function bits :: "int \<Rightarrow> int" where
  "bits k = (if k \<le> 0 then 0 else 1 + bits (k div 2))"
  by pat_completeness auto
termination
  by (relation "measure nat") auto

declare bits.simps [simp del]

definition pow2 :: "int \<Rightarrow> rat" where
  "pow2 e = (if e \<ge> 0 then 2 ^ nat e else 1 / 2 ^ nat (- e))"

definition ilog2 :: "rat \<Rightarrow> int" where
  "ilog2 a = (if a \<ge> 1 then bits \<lfloor>a\<rfloor> - 1 else - bits (\<lceil>1 / a\<rceil> - 1))"

definition round_even :: "rat \<Rightarrow> int" where
  "round_even q =
     (let n = \<lfloor>q\<rfloor>; d = q - of_int n
      in if d < 1 / 2 then n else if d > 1 / 2 then n + 1 else if even n then n else n + 1)"

definition round64 :: "rat \<Rightarrow> rat" where
  "round64 x =
     (if x = 0 then 0
      else (let e = max (ilog2 \<bar>x\<bar> - 52) (- 1074)
            in sgn x * of_int (round_even (\<bar>x\<bar> / pow2 e)) * pow2 e))"

definition fadd :: "rat \<Rightarrow> rat \<Rightarrow> rat" where
  "fadd x y = round64 (x + y)"

text \<open>
  What the numeric libraries leave to their version and build: the argsort of more than
  16 keys (\<^verbatim>\<open>kind="quicksort"\<close>), the sum of a column of 8 or more values (added in
  blocks), and the sum of a group of 3 or more values (added with a compensation term
  in recent versions).
\<close>

record num_lib =
  big_argsort :: "rat list \<Rightarrow> nat list"
  long_sum :: "rat list \<Rightarrow> rat"
  group_total :: "rat list \<Rightarrow> rat"

text \<open>
  \<^verbatim>\<open>Series.sum()\<close>: fewer than 8 values are added one after the other, in the order of the
  rows.
\<close>

definition series_sum :: "num_lib \<Rightarrow> rat list \<Rightarrow> rat" where
  "series_sum order vs = (if length vs < 8 then foldl fadd 0 vs else long_sum order vs)"

text \<open>
  The sum of one group of \<^verbatim>\<open>groupby(...).sum()\<close>: the values of the group are added in the
  order of the rows; up to two values, the compensation term changes nothing.
\<close>

definition group_sum :: "num_lib \<Rightarrow> rat list \<Rightarrow> rat" where
  "group_sum order vs = (if length vs \<le> 2 then foldl fadd 0 vs else group_total order vs)"

definition total_rev :: "num_lib \<Rightarrow> frame \<Rightarrow> rat" where
  "total_rev order f = series_sum order (map net_royalty (rows f))"

definition total_units :: "num_lib \<Rightarrow> frame \<Rightarrow> rat" where
  "total_units order f = series_sum order (map units (rows f))"

definition n_tracks :: "frame \<Rightarrow> nat" where
  "n_tracks f = length (remdups (map (\<lambda>r. cat r ''track_title'') (rows f)))"

text \<open>
  \<^verbatim>\<open>f.groupby(c)\<close>: one group for every value of the column, the groups in ascending
  order of the value (\<^verbatim>\<open>sort=True\<close> is the default). The categorical columns hold no
  missing value, so no row is left without a group.
\<close>

definition group_keys :: "string \<Rightarrow> frame \<Rightarrow> string list" where
  "group_keys c f = sort (remdups (map (\<lambda>r. cat r c) (rows f)))"

definition group_rows :: "string \<Rightarrow> string \<Rightarrow> frame \<Rightarrow> row list" where
  "group_rows c k f = filter (\<lambda>r. cat r c = k) (rows f)"

text \<open>
  The sums of \<open>net_royalty\<close> and \<open>units\<close> over every group of \<^verbatim>\<open>f.groupby(c)\<close>: key,
  revenue, units.
\<close>

type_synonym group = "string \<times> rat \<times> rat"

definition group_sums :: "num_lib \<Rightarrow> string \<Rightarrow> frame \<Rightarrow> group list" where
  "group_sums order c f =
     map (\<lambda>k. (k, group_sum order (map net_royalty (group_rows c k f)),
                  group_sum order (map units (group_rows c k f))))
       (group_keys c f)"

text \<open>
  \<^verbatim>\<open>ndarray.argsort(kind="quicksort")\<close>, the positions of the keys in ascending order: up to
  16 keys are sorted by insertion, which leaves equal keys in their order.
\<close>

definition small_argsort :: "rat list \<Rightarrow> nat list" where
  "small_argsort ks = map snd (sort_key fst (zip ks [0..<length ks]))"

definition np_argsort :: "num_lib \<Rightarrow> rat list \<Rightarrow> nat list" where
  "np_argsort order ks = (if length ks \<le> 16 then small_argsort ks else big_argsort order ks)"

text \<open>
  \<^verbatim>\<open>.sort_values(col, ascending=False)\<close> names no \<^verbatim>\<open>kind\<close>, so the algorithm is the default
  \<^verbatim>\<open>quicksort\<close>. For the descending order the library reverses the keys, takes their
  argsort, maps the positions back and reverses the result; the rows are then taken in
  that order. \<open>argsort_ok\<close> is what the library promises of an argsort: the positions, each
  once, with the keys ascending.
\<close>

definition nargsort_desc :: "num_lib \<Rightarrow> rat list \<Rightarrow> nat list" where
  "nargsort_desc order ks = rev (map ((!) (rev [0..<length ks])) (np_argsort order (rev ks)))"

definition sort_values_desc :: "num_lib \<Rightarrow> ('a \<Rightarrow> rat) \<Rightarrow> 'a list \<Rightarrow> 'a list" where
  "sort_values_desc order col xs = map ((!) xs) (nargsort_desc order (map col xs))"


definition by_dist :: "num_lib \<Rightarrow> frame \<Rightarrow> group list" where
  "by_dist order f =
     sort_values_desc order (\<lambda>(k, rv, u). rv) (group_sums order ''distributor'' f)"

definition by_class :: "num_lib \<Rightarrow> frame \<Rightarrow> group list" where
  "by_class order f =
     sort_values_desc order (\<lambda>(k, rv, u). rv) (group_sums order ''classification'' f)"

definition by_store :: "num_lib \<Rightarrow> frame \<Rightarrow> group list" where
  "by_store order f =
     take 20 (sort_values_desc order (\<lambda>(k, rv, u). rv) (group_sums order ''store'' f))"

definition by_country :: "num_lib \<Rightarrow> frame \<Rightarrow> group list" where
  "by_country order f =
     take 20 (sort_values_desc order (\<lambda>(k, rv, u). rv) (group_sums order ''country'' f))"

text \<open>\<^verbatim>\<open>sep.join(xs)\<close>.\<close>

fun join :: "string \<Rightarrow> string list \<Rightarrow> string" where
  "join sep [] = []"
| "join sep [x] = x"
| "join sep (x # y # ys) = x @ sep @ join sep (y # ys)"

text \<open>A row of the Top Tracks table: \<open>track_title\<close>, \<open>revenue\<close>, \<open>units\<close>, \<open>distributor\<close>.\<close>

type_synonym track = "string \<times> rat \<times> rat \<times> string"

text \<open>The \<^verbatim>\<open>lambda s: ", ".join(sorted(set(s)))\<close> of line 165.\<close>

definition distributors_of :: "row list \<Rightarrow> string" where
  "distributors_of rs = join '', '' (sort (remdups (map (\<lambda>r. cat r ''distributor'') rs)))"

definition track_groups :: "num_lib \<Rightarrow> frame \<Rightarrow> track list" where
  "track_groups order f =
     map (\<lambda>k. (k, group_sum order (map net_royalty (group_rows ''track_title'' k f)),
                  group_sum order (map units (group_rows ''track_title'' k f)),
                  distributors_of (group_rows ''track_title'' k f)))
       (group_keys ''track_title'' f)"

definition top_tracks :: "num_lib \<Rightarrow> frame \<Rightarrow> track list" where
  "top_tracks order f =
     take 30 (sort_values_desc order (\<lambda>(title, rv, u, ds). rv) (track_groups order f))"

subsection \<open>The whole run\<close>

text \<open>What the sidebar controls return in one run.\<close>

record controls =
  picked :: date_value
  chosen_dist :: "string list"
  chosen_class :: "string list"
  chosen_store :: "string list"
  chosen_country :: "string list"
  typed :: string
  wanted_rev :: rat
  wanted_units :: rat

record view =
  filtered :: frame
  kpi_rev :: rat
  kpi_units :: rat
  kpi_tracks :: nat
  tab_dist :: "group list"
  tab_class :: "group list"
  tab_store :: "group list"
  tab_country :: "group list"
  tab_tracks :: "track list"

definition render :: "num_lib \<Rightarrow> frame \<Rightarrow> view" where
  "render order f =
     \<lparr>filtered = f, kpi_rev = total_rev order f, kpi_units = total_units order f,
      kpi_tracks = n_tracks f,
      tab_dist = by_dist order f, tab_class = by_class order f,
      tab_store = by_store order f, tab_country = by_country order f,
      tab_tracks = top_tracks order f\<rparr>"

definition dashboard ::
  "text_lib \<Rightarrow> num_lib \<Rightarrow> src_frame option \<Rightarrow> controls \<Rightarrow> error + view" where
  "dashboard eng order file ui =
     (case load_data file of
        Inl e \<Rightarrow> Inl e
      | Inr df \<Rightarrow>
          (case date_input (dmin df) (dmax df) (picked ui) of
             Inl e \<Rightarrow> Inl e
           | Inr date_range \<Rightarrow>
               (case (dmin df, dmax df) of
                  (Some lo, Some hi) \<Rightarrow>
                    (case apply_filters eng
                            \<lparr>start_date = fst (date_bounds date_range lo hi),
                             end_date = snd (date_bounds date_range lo hi),
                             sel_dist = chosen_dist ui, sel_class = chosen_class ui,
                             sel_store = chosen_store ui, sel_country = chosen_country ui,
                             search = search_input (typed ui),
                             min_rev = wanted_rev ui, min_units = wanted_units ui\<rparr> df of
                       Inl e \<Rightarrow> Inl e
                     | Inr f \<Rightarrow> Inr (render order f))
                | _ \<Rightarrow> Inl StreamlitAPIException)))"

subsection \<open>Sample data\<close>

text \<open>
  Two libraries that keep the promise of the argsort: one leaves equal keys in their
  order, the other turns them around; both add long columns one value after the other.
  And a text library whose engine rejects every pattern it is asked about.
\<close>

definition stable_lib :: num_lib where
  "stable_lib =
     \<lparr>big_argsort = small_argsort, long_sum = foldl fadd 0, group_total = foldl fadd 0\<rparr>"


definition no_engine :: text_lib where
  "no_engine = \<lparr>re_engine = (\<lambda>pat. None), na_as_text = False\<rparr>"

definition sample_row :: "date \<Rightarrow> rat \<Rightarrow> rat \<Rightarrow> string \<Rightarrow> string \<Rightarrow> cell \<Rightarrow> row" where
  "sample_row d v u dn title code =
     \<lparr>period = (d, 0), period_date = d, net_royalty = v, units = u,
      cat = (\<lambda>_. [])(''distributor'' := dn, ''track_title'' := title,
                       ''artist'' := ''(sem artista)'', ''store'' := ''Spotify''),
      other = (\<lambda>_. NaN)(''isrc'' := code)\<rparr>"

definition sample :: frame where
  "sample =
     \<lparr>extra_columns = [''isrc''],
      rows = [sample_row 10 1 2 ''B'' ''Song'' (Str ''BR-ISRC123''),
              sample_row 20 1 3 ''A'' ''Song'' (Str ''x''),
              sample_row 30 0 0 ''A'' ''abc'' (Str ''y'')]\<rparr>"

definition sample_params :: params where
  "sample_params =
     \<lparr>start_date = 15, end_date = 40, sel_dist = [''A''], sel_class = [], sel_store = [],
      sel_country = [], search = ''song'', min_rev = 0, min_units = 0\<rparr>"



definition sample_src_row :: "timestamp option \<Rightarrow> cell \<Rightarrow> cell \<Rightarrow> src_row" where
  "sample_src_row ts dn ar =
     \<lparr>src_period = ts, src_net_royalty = Some 7, src_units = None,
      src_text = (\<lambda>_. NaN)(''distributor'' := dn, ''artist'' := ar)\<rparr>"

definition sample_src :: src_frame where
  "sample_src =
     \<lparr>src_columns = [''period'', ''net_royalty'', ''units'', ''distributor'', ''artist'', ''isrc''],
      src_rows = [sample_src_row (Some (5, 0)) (Str '''') (Str '' The Band ''),
                  sample_src_row None (Str ''X'') (Str ''Y''),
                  sample_src_row (Some (9, 0)) PyNone (Str ''nan'')]\<rparr>"

definition unparseable_src :: src_frame where
  "unparseable_src =
     \<lparr>src_columns = [''period'', ''net_royalty'', ''units'', ''distributor''],
      src_rows = [sample_src_row None (Str ''X'') (Str ''Y'')]\<rparr>"

definition sample_controls :: controls where
  "sample_controls =
     \<lparr>picked = DateScalar 3, chosen_dist = [], chosen_class = [], chosen_store = [],
      chosen_country = [], typed = [], wanted_rev = 0, wanted_units = 0\<rparr>"

text \<open>
  Two search texts as they are typed, the first with blanks and a no-break space around
  it, the second a capital E with an acute accent.
\<close>

definition typed_isrc :: string where
  "typed_isrc = '' Isrc123 '' @ [CHR 0xA0]"

definition typed_accent :: string where
  "typed_accent = [CHR 0xC9]"

text \<open>Two rows whose titles differ in the case of an accented letter.\<close>

definition accent_sample :: frame where
  "accent_sample =
     \<lparr>extra_columns = [],
      rows = [sample_row 1 1 1 ''A'' (''CAF'' @ [CHR 0xC9]) NaN,
              sample_row 2 1 1 ''A'' (''caf'' @ [CHR 0xE9]) NaN,
              sample_row 3 1 1 ''A'' ''tea'' NaN]\<rparr>"

subsection \<open>Notions the properties are stated with\<close>

text \<open>A search text without any special character of the regular expression syntax.\<close>

definition literal :: "string \<Rightarrow> bool" where
  "literal pat = list_all (\<lambda>c. c \<notin> set re_special) pat"

text \<open>
  The texts a search can find in a row: the track title, the release title and the
  artist, and the ISRC and the UPC where the frame has the column and the value is not
  missing. Where the library turns a missing value into text, that text stands for it.
\<close>

definition code_texts :: "text_lib \<Rightarrow> frame \<Rightarrow> row \<Rightarrow> string \<Rightarrow> string list" where
  "code_texts eng f r c =
     (if c \<in> set (extra_columns f)
      then (case other r c of
              Str s \<Rightarrow> [s]
            | NaN \<Rightarrow> if na_as_text eng then [''nan''] else []
            | PyNone \<Rightarrow> if na_as_text eng then [''None''] else [])
      else [])"

definition searchable :: "text_lib \<Rightarrow> frame \<Rightarrow> row \<Rightarrow> string list" where
  "searchable eng f r =
     [cat r ''track_title'', cat r ''release_title'', cat r ''artist''] @
     code_texts eng f r ''isrc'' @ code_texts eng f r ''upc''"





text \<open>
  What a categorical column holds after loading, from the source cell \<open>v\<close>: the label
  \<open>fill\<close> when the column is absent, when the cell is missing, and when the cell is the
  text \<^verbatim>\<open>nan\<close> or \<^verbatim>\<open>None\<close>; the cell's own text otherwise.
\<close>

definition filled :: "string list \<Rightarrow> string \<Rightarrow> string \<Rightarrow> cell \<Rightarrow> string" where
  "filled cols c fill v =
     (if c \<in> set cols
      then (case v of Str s \<Rightarrow> if s = ''nan'' \<or> s = ''None'' then fill else s | _ \<Rightarrow> fill)
      else fill)"

section \<open>Properties\<close>

subsection \<open>Masks\<close>

lemma keep_rows: "rows (keep m f) = filter m (rows f)"
  by (simp add: keep_def)

lemma keep_cols: "extra_columns (keep m f) = extra_columns f"
  by (simp add: keep_def)

lemma keep_all: "(\<And>r. r \<in> set (rows f) \<Longrightarrow> m r) \<Longrightarrow> keep m f = f"
  by (simp add: keep_def)

lemma keep_keep: "keep m2 (keep m1 f) = keep (\<lambda>r. m1 r \<and> m2 r) f"
  by (simp add: keep_def)

lemma isin_filter_keep:
  "isin_filter c sel f = keep (\<lambda>r. sel = [] \<or> cat r c \<in> set sel) f"
  by (simp add: isin_filter_def keep_def)

lemma min_rev_filter_keep: "min_rev_filter t f = keep (\<lambda>r. \<not> t > 0 \<or> net_royalty r \<ge> t) f"
  by (simp add: min_rev_filter_def keep_def)

lemma min_units_filter_keep: "min_units_filter t f = keep (\<lambda>r. \<not> t > 0 \<or> units r \<ge> t) f"
  by (simp add: min_units_filter_def keep_def)

lemma category_filters_keep:
  "category_filters p f =
     keep (\<lambda>r. (sel_dist p = [] \<or> cat r ''distributor'' \<in> set (sel_dist p)) \<and>
               (sel_class p = [] \<or> cat r ''classification'' \<in> set (sel_class p)) \<and>
               (sel_store p = [] \<or> cat r ''store'' \<in> set (sel_store p)) \<and>
               (sel_country p = [] \<or> cat r ''country'' \<in> set (sel_country p))) f"
  by (simp add: category_filters_def isin_filter_keep keep_keep conj_ac)

lemma search_filter_cases:
  "(\<exists>m. search_filter eng s f = Inr (keep m f)) \<or>
   (search_filter eng s f = Inl ReError \<and> s \<noteq> [] \<and> re_compile eng s = None)"
proof (cases "s = []")
  case True
  have "keep (\<lambda>_. True) f = f" by (simp add: keep_def)
  then have "search_filter eng s f = Inr (keep (\<lambda>_. True) f)"
    using True by (simp add: search_filter_def)
  then show ?thesis by blast
next
  case False
  then show ?thesis
    by (cases "re_compile eng s") (auto simp: search_filter_def)
qed

lemma apply_filters_cases:
  "(\<exists>m. apply_filters eng p df = Inr (keep m df)) \<or>
   (apply_filters eng p df = Inl ReError \<and> search p \<noteq> [] \<and> re_compile eng (search p) = None)"
proof -
  let ?g = "category_filters p (date_filter (start_date p) (end_date p) df)"
  obtain m0 where g: "?g = keep m0 df"
    by (simp add: category_filters_keep date_filter_def keep_keep)
  from search_filter_cases [of eng "search p" ?g]
  show ?thesis
  proof
    assume "\<exists>m. search_filter eng (search p) ?g = Inr (keep m ?g)"
    then obtain m where "search_filter eng (search p) ?g = Inr (keep m ?g)" ..
    then have "apply_filters eng p df =
        Inr (min_units_filter (min_units p) (min_rev_filter (min_rev p) (keep m (keep m0 df))))"
      using g by (simp add: apply_filters_def)
    then show ?thesis
      by (simp only: min_rev_filter_keep min_units_filter_keep keep_keep) blast
  next
    assume "search_filter eng (search p) ?g = Inl ReError \<and> search p \<noteq> [] \<and>
            re_compile eng (search p) = None"
    then show ?thesis by (simp add: apply_filters_def)
  qed
qed

subsection \<open>The filter block\<close>

text \<open>
  C1. Whatever the loaded frame and the filter parameters, the filter block either returns
  a frame whose rows are rows of the loaded frame, in their order and no more of them,
  under the same columns; or the search text is a pattern the regular expression engine
  rejects, and the block raises. It fails in no other way.
\<close>

theorem filtered_is_subset:
  "case apply_filters eng p df of
     Inr f \<Rightarrow> subseq (rows f) (rows df) \<and> set (rows f) \<subseteq> set (rows df) \<and>
              length (rows f) \<le> length (rows df) \<and> columns f = columns df
   | Inl e \<Rightarrow> e = ReError \<and> search p \<noteq> [] \<and> re_compile eng (search p) = None"
  using apply_filters_cases [of eng p df]
  by (auto simp: keep_rows keep_cols columns_def)

theorem filtered_is_subset_witness:
  "case apply_filters no_engine sample_params sample of
     Inr f \<Rightarrow> map period_date (rows f) = [20] \<and> subseq (rows f) (rows sample) \<and>
              length (rows f) \<le> 3 \<and> columns f = columns sample
   | Inl e \<Rightarrow> False"
  using filtered_is_subset [where eng = no_engine and p = sample_params and df = sample]
  by (simp add: apply_filters_def search_filter_def re_compile_def dots_and_literals_def
      re_special_def search_mask_def search_cols_def columns_def fixed_columns_def cat_fills_def
      col_text_def lower_def lower_char_def upper_letters_def lower_letters_def
      category_filters_def isin_filter_def date_filter_def min_rev_filter_def
      min_units_filter_def keep_def no_engine_def sample_params_def sample_def sample_row_def)

text \<open>
  C2. Each of the four selections (distributor, classification, store, country) filters
  nothing when it is empty, and keeps exactly the rows whose value in its column is one of
  the selected values when it is not; the four together keep the rows that pass each.
\<close>

theorem selection_pass_through:
  "isin_filter c [] f = f \<and>
   (sel \<noteq> [] \<longrightarrow>
      rows (isin_filter c sel f) = filter (\<lambda>r. cat r c \<in> set sel) (rows f) \<and>
      columns (isin_filter c sel f) = columns f) \<and>
   rows (category_filters p f) =
     filter (\<lambda>r. (sel_dist p = [] \<or> cat r ''distributor'' \<in> set (sel_dist p)) \<and>
                 (sel_class p = [] \<or> cat r ''classification'' \<in> set (sel_class p)) \<and>
                 (sel_store p = [] \<or> cat r ''store'' \<in> set (sel_store p)) \<and>
                 (sel_country p = [] \<or> cat r ''country'' \<in> set (sel_country p))) (rows f)"
  by (simp add: category_filters_keep keep_rows) (simp add: isin_filter_def keep_def columns_def)

theorem selection_pass_through_witness:
  "isin_filter ''store'' [] sample = sample \<and> [''A''] \<noteq> [] \<and>
   map period_date (rows (isin_filter ''distributor'' [''A''] sample)) = [20, 30] \<and>
   map period_date (rows (category_filters sample_params sample)) = [20, 30]"
  using selection_pass_through [of "''store''" sample "[''A'']" sample_params]
    selection_pass_through [of "''distributor''" sample "[''A'']" sample_params]
  by (simp add: sample_params_def sample_def sample_row_def)

text \<open>
  C3. A minimum of zero filters nothing, so rows with revenue or units of exactly zero
  stay; a minimum \<open>t\<close> above zero keeps exactly the rows whose \<open>net_royalty\<close>,
  respectively \<open>units\<close>, is at least \<open>t\<close>.
\<close>

theorem minimum_thresholds:
  "min_rev_filter 0 f = f \<and> min_units_filter 0 f = f \<and>
   (0 < t \<longrightarrow>
      rows (min_rev_filter t f) = filter (\<lambda>r. net_royalty r \<ge> t) (rows f) \<and>
      rows (min_units_filter t f) = filter (\<lambda>r. units r \<ge> t) (rows f))"
  by (simp add: min_rev_filter_def min_units_filter_def keep_def)

theorem minimum_thresholds_witness:
  "min_rev_filter 0 sample = sample \<and> min_units_filter 0 sample = sample \<and> (0::rat) < 1 \<and>
   map period_date (rows (min_rev_filter 1 sample)) = [10, 20] \<and>
   map period_date (rows (min_units_filter 3 sample)) = [20]"
  using minimum_thresholds [of sample 1] minimum_thresholds [of sample 3]
  by (simp add: sample_def sample_row_def)

subsection \<open>The search\<close>

lemma dot_special: "CHR ''.'' \<in> set re_special"
  by (simp add: re_special_def)

lemma match_here_prefix: "literal pat \<Longrightarrow> match_here pat s = prefix pat s"
proof (induction pat s rule: match_here.induct)
  case (1 s)
  show ?case by simp
next
  case (2 p ps)
  show ?case by simp
next
  case (3 p ps c cs)
  have "p \<noteq> CHR ''.''" using "3.prems" dot_special by (auto simp: literal_def)
  moreover have "literal ps" using "3.prems" by (simp add: literal_def)
  ultimately show ?case using "3.IH" by auto
qed

lemma re_search_sublist: "literal pat \<Longrightarrow> re_search pat s = sublist pat s"
proof (induction s)
  case Nil
  then show ?case by (cases pat) (simp_all add: match_here_prefix)
next
  case (Cons c cs)
  then show ?case by (simp add: match_here_prefix sublist_Cons_right)
qed

lemma literal_compiles: "literal pat \<Longrightarrow> re_compile eng pat = Some (re_search pat)"
  by (simp add: re_compile_def dots_and_literals_def literal_def list_all_iff)

lemma isrc_not_filled: "''isrc'' \<notin> set fixed_columns"
  and upc_not_filled: "''upc'' \<notin> set fixed_columns"
  by (simp_all add: fixed_columns_def cat_fills_def)

lemma code_text_found:
  assumes "c \<notin> set fixed_columns"
  shows "(c \<in> set (columns f) \<and> (case col_text eng c r of Some t \<Rightarrow> m t | None \<Rightarrow> False)) =
         (\<exists>t\<in>set (code_texts eng f r c). m (lower t))"
proof -
  have "c \<notin> set (map fst cat_fills)"
    using assms by (simp add: fixed_columns_def)
  then show ?thesis
    using assms
    by (cases "other r c") (auto simp: col_text_def code_texts_def columns_def)
qed

lemma search_mask_any:
  "search_mask eng m f r = (\<exists>t\<in>set (searchable eng f r). m (lower t))"
proof -
  have "search_mask eng m f r =
      ((m (lower (cat r ''track_title'')) \<or> m (lower (cat r ''release_title'')) \<or>
        m (lower (cat r ''artist''))) \<or>
       (''isrc'' \<in> set (columns f) \<and>
          (case col_text eng ''isrc'' r of Some t \<Rightarrow> m t | None \<Rightarrow> False)) \<or>
       (''upc'' \<in> set (columns f) \<and>
          (case col_text eng ''upc'' r of Some t \<Rightarrow> m t | None \<Rightarrow> False)))"
    by (simp add: search_mask_def search_cols_def)
       (auto simp: col_text_def columns_def fixed_columns_def cat_fills_def)
  then show ?thesis
    by (simp only: code_text_found [OF isrc_not_filled] code_text_found [OF upc_not_filled])
       (auto simp: searchable_def)
qed

text \<open>
  C5, as it holds. The search text is trimmed and lower-cased. When nothing is left of
  it, the search filters nothing. When what is left has no special character of the
  regular expression syntax, the search keeps exactly the rows in which one of the
  searchable texts (track title, release title, artist, and the ISRC and the UPC where
  the column exists and the value is not missing), lower-cased, contains it.
\<close>

theorem search_is_substring:
  "search_filter eng [] f = Inr f \<and>
   (lower (strip txt) = [] \<longrightarrow> search_filter eng (search_input txt) f = Inr f) \<and>
   (lower (strip txt) \<noteq> [] \<longrightarrow> literal (lower (strip txt)) \<longrightarrow>
      (\<exists>g. search_filter eng (search_input txt) f = Inr g \<and> columns g = columns f \<and>
           rows g = filter (\<lambda>r. \<exists>t\<in>set (searchable eng f r).
                                   sublist (lower (strip txt)) (lower t)) (rows f)))"
proof -
  have "search_filter eng [] f = Inr f" by (simp add: search_filter_def)
  moreover have "lower (strip txt) = [] \<longrightarrow> search_filter eng (search_input txt) f = Inr f"
    by (simp add: search_filter_def search_input_def)
  moreover have "\<exists>g. search_filter eng (search_input txt) f = Inr g \<and> columns g = columns f \<and>
           rows g = filter (\<lambda>r. \<exists>t\<in>set (searchable eng f r).
                                   sublist (lower (strip txt)) (lower t)) (rows f)"
    if ne: "lower (strip txt) \<noteq> []" and lit: "literal (lower (strip txt))"
  proof -
    let ?s = "lower (strip txt)"
    have i: "search_input txt = ?s" by (simp add: search_input_def)
    have "search_filter eng ?s f = Inr (keep (search_mask eng (re_search ?s) f) f)"
      using ne literal_compiles [OF lit] by (simp add: search_filter_def)
    moreover have "search_mask eng (re_search ?s) f =
        (\<lambda>r. \<exists>t\<in>set (searchable eng f r). sublist ?s (lower t))"
      using re_search_sublist [OF lit] by (simp add: search_mask_any fun_eq_iff)
    ultimately show ?thesis
      by (simp add: i keep_def columns_def)
  qed
  ultimately show ?thesis by blast
qed

theorem search_is_substring_witness:
  "lower (strip typed_isrc) = ''isrc123'' \<and> literal ''isrc123'' \<and>
   (case search_filter no_engine (search_input typed_isrc) sample of
      Inr g \<Rightarrow> map period_date (rows g) = [10] | Inl e \<Rightarrow> False) \<and>
   lower (strip typed_accent) = [CHR 0xE9] \<and>
   (case search_filter no_engine (search_input typed_accent) accent_sample of
      Inr g \<Rightarrow> map period_date (rows g) = [1, 2] | Inl e \<Rightarrow> False)"
proof -
  have a: "lower (strip typed_isrc) = ''isrc123''"
    by code_simp
  have b: "literal ''isrc123''"
    by code_simp
  have c: "lower (strip typed_accent) = [CHR 0xE9]"
    by code_simp
  have d: "literal [CHR 0xE9]"
    by code_simp
  from search_is_substring [of no_engine sample typed_isrc]
  obtain g where g: "search_filter no_engine (search_input typed_isrc) sample = Inr g"
    and r: "rows g = filter (\<lambda>r. \<exists>t\<in>set (searchable no_engine sample r).
                                   sublist ''isrc123'' (lower t)) (rows sample)"
    using b by (auto simp: a)
  from search_is_substring [of no_engine accent_sample typed_accent]
  obtain h where h: "search_filter no_engine (search_input typed_accent) accent_sample = Inr h"
    and s: "rows h = filter (\<lambda>r. \<exists>t\<in>set (searchable no_engine accent_sample r).
                                   sublist [CHR 0xE9] (lower t)) (rows accent_sample)"
    using d by (auto simp: c)
  have "map period_date (rows g) = [10]"
    unfolding r by code_simp
  moreover have "map period_date (rows h) = [1, 2]"
    unfolding s by code_simp
  ultimately show ?thesis
    using a b c g h by simp
qed

text \<open>
  C5 as stated fails: the search text is a regular expression. The text \<^verbatim>\<open>.\<close> keeps all
  three sample rows, and none of them holds a dot in a searchable text.
\<close>

theorem search_is_substring_counterexample:
  "search_input ''.'' = ''.'' \<and>
   (case search_filter no_engine ''.'' sample of
      Inr g \<Rightarrow> map period_date (rows g) = [10, 20, 30] | Inl e \<Rightarrow> False) \<and>
   filter (\<lambda>r. \<exists>t\<in>set (searchable no_engine sample r). sublist ''.'' (lower t))
     (rows sample) = []"
  by code_simp

subsection \<open>The date range\<close>

lemma dmin_defined: "rows f \<noteq> [] \<Longrightarrow> \<exists>lo. dmin f = Some lo"
  by (cases "rows f") (simp_all add: dmin_def series_min_def)

lemma dmax_defined: "rows f \<noteq> [] \<Longrightarrow> \<exists>hi. dmax f = Some hi"
  by (cases "rows f") (simp_all add: dmax_def series_max_def)

lemma fold_min_le: "fold min ds (d::int) \<le> d \<and> (\<forall>x\<in>set ds. fold min ds d \<le> x)"
proof (induction ds arbitrary: d)
  case Nil
  show ?case by simp
next
  case (Cons a ds)
  have h: "fold min ds (min a d) \<le> min a d \<and> (\<forall>x\<in>set ds. fold min ds (min a d) \<le> x)"
    using Cons.IH by blast
  then show ?case by auto
qed

lemma fold_max_ge: "d \<le> fold max ds (d::int) \<and> (\<forall>x\<in>set ds. x \<le> fold max ds d)"
proof (induction ds arbitrary: d)
  case Nil
  show ?case by simp
next
  case (Cons a ds)
  have h: "max a d \<le> fold max ds (max a d) \<and> (\<forall>x\<in>set ds. x \<le> fold max ds (max a d))"
    using Cons.IH by blast
  then show ?case by auto
qed

lemma series_min_le: "series_min ds = Some lo \<Longrightarrow> x \<in> set ds \<Longrightarrow> lo \<le> x"
  using fold_min_le by (cases ds) (auto simp: series_min_def)

lemma series_max_ge: "series_max ds = Some hi \<Longrightarrow> x \<in> set ds \<Longrightarrow> x \<le> hi"
  using fold_max_ge by (cases ds) (auto simp: series_max_def)

lemma full_range_keeps_all:
  assumes "dmin f = Some lo" and "dmax f = Some hi"
  shows "date_filter lo hi f = f"
proof -
  have "lo \<le> period_date r \<and> period_date r \<le> hi" if "r \<in> set (rows f)" for r
    using that assms series_min_le [of "map period_date (rows f)" lo "period_date r"]
      series_max_ge [of "map period_date (rows f)" hi "period_date r"]
    by (simp add: dmin_def dmax_def)
  then show ?thesis
    by (simp add: date_filter_def keep_all)
qed

lemma date_bounds_fallback:
  "(\<forall>a b. dv \<noteq> DateTuple [a, b]) \<Longrightarrow> date_bounds dv lo hi = (lo, hi)"
  by (induction dv lo hi rule: date_bounds.induct) simp_all


text \<open>
  C9. The date filter keeps exactly the rows whose \<open>period_date\<close> lies between the two
  bounds, both included; a pair from the control gives the bounds. On a loaded frame with
  rows the control is set up without failure, and when it returns anything but a pair the
  bounds are the least and the greatest date of the frame, between which every row lies.
\<close>

theorem date_range_filter:
  "rows (date_filter s e f) = filter (\<lambda>r. s \<le> period_date r \<and> period_date r \<le> e) (rows f) \<and>
   date_bounds (DateTuple [s, e]) lo hi = (s, e) \<and>
   (rows f \<noteq> [] \<longrightarrow>
      (\<exists>lo hi. dmin f = Some lo \<and> dmax f = Some hi \<and>
         date_input (dmin f) (dmax f) dv = Inr dv \<and>
         ((\<forall>a b. dv \<noteq> DateTuple [a, b]) \<longrightarrow>
            date_bounds dv lo hi = (lo, hi) \<and> date_filter lo hi f = f)))"
proof -
  have a: "rows (date_filter s e f) =
      filter (\<lambda>r. s \<le> period_date r \<and> period_date r \<le> e) (rows f)"
    by (simp add: date_filter_def keep_def)
  have b: "\<exists>lo hi. dmin f = Some lo \<and> dmax f = Some hi \<and>
         date_input (dmin f) (dmax f) dv = Inr dv \<and>
         ((\<forall>a b. dv \<noteq> DateTuple [a, b]) \<longrightarrow>
            date_bounds dv lo hi = (lo, hi) \<and> date_filter lo hi f = f)"
    if ne: "rows f \<noteq> []"
  proof -
    obtain lo hi where lh: "dmin f = Some lo" "dmax f = Some hi"
      using dmin_defined [OF ne] dmax_defined [OF ne] by blast
    show ?thesis
      using lh date_bounds_fallback [of dv lo hi] full_range_keeps_all [OF lh]
      by simp
  qed
  show ?thesis using a b by simp
qed

theorem date_range_filter_witness:
  "rows sample \<noteq> [] \<and> dmin sample = Some 10 \<and> dmax sample = Some 30 \<and>
   date_input (dmin sample) (dmax sample) (DateScalar 12) = Inr (DateScalar 12) \<and>
   date_bounds (DateScalar 12) 10 30 = (10, 30) \<and> date_filter 10 30 sample = sample \<and>
   map period_date (rows (date_filter 15 25 sample)) = [20]"
proof -
  have ne: "rows sample \<noteq> []"
    by (simp add: sample_def)
  have lo: "dmin sample = Some 10" and hi: "dmax sample = Some 30"
    by (simp_all add: dmin_def dmax_def series_min_def series_max_def sample_def sample_row_def)
  have sc: "\<forall>a b. DateScalar 12 \<noteq> DateTuple [a, b]"
    by simp
  have "map period_date (rows (date_filter 15 25 sample)) = [20]"
    using date_range_filter [of 15 25 sample 10 30 "DateScalar 12"]
    by (simp add: sample_def sample_row_def)
  then show ?thesis
    using date_range_filter [of 15 25 sample 10 30 "DateScalar 12"] ne lo hi sc
    by simp
qed

subsection \<open>The loader\<close>

lemma fill_one:
  "fillna fill (replace_nan (astype_str v)) =
     (case v of Str s \<Rightarrow> if s = ''nan'' \<or> s = ''None'' then fill else s | _ \<Rightarrow> fill)"
  by (cases v) (simp_all add: replace_nan_def)

lemma fill_column_cat:
  "cat (fill_column cols (c, fill) r) c' =
     (if c' = c then filled cols c fill (other r c) else cat r c')"
  by (simp add: fill_column_def filled_def fill_one)

lemma fill_column_other: "other (fill_column cols cf r) = other r"
  by (cases cf) (simp add: fill_column_def)

lemma fold_fill_other: "other (fold (fill_column cols) cfs r) = other r"
  by (induction cfs arbitrary: r) (simp_all add: fill_column_other)

lemma fold_fill_cat:
  "distinct (map fst cfs) \<Longrightarrow> (c, fill) \<in> set cfs \<Longrightarrow>
   cat (fold (fill_column cols) cfs r) c = filled cols c fill (other r c)"
proof (induction cfs arbitrary: r)
  case Nil
  then show ?case by simp
next
  case (Cons cf cfs)
  obtain c0 f0 where cf: "cf = (c0, f0)" by (cases cf)
  show ?case
  proof (cases "(c, fill) \<in> set cfs")
    case True
    then show ?thesis
      using Cons by (simp add: fill_column_other)
  next
    case False
    then have e: "c0 = c" "f0 = fill" using Cons.prems cf by auto
    have "c \<notin> fst ` set cfs" using Cons.prems cf e by simp
    then have keep: "cat (fold (fill_column cols) cfs r') c = cat r' c" for r'
    proof (induction cfs arbitrary: r')
      case Nil
      show ?case by simp
    next
      case (Cons a as)
      obtain c1 f1 where a: "a = (c1, f1)" by (cases a)
      have "c1 \<noteq> c" using Cons.prems a by auto
      then show ?case using Cons a by (simp add: fill_column_cat)
    qed
    show ?thesis
      using cf e by (simp add: keep fill_column_cat)
  qed
qed

lemma cat_fills_distinct: "distinct (map fst cat_fills)"
  by (simp add: cat_fills_def)

lemma coerce_row_other: "coerce_row s = Some r \<Longrightarrow> other r = src_text s"
  by (auto simp: coerce_row_def split: option.splits)

lemma coerce_row_None: "coerce_row s = None \<longleftrightarrow> src_period s = None"
  by (simp add: coerce_row_def split: option.splits)

lemma loaded_cat_column:
  assumes "(c, fill) \<in> set cat_fills"
  shows "map (\<lambda>r. cat r c) (map (fold (fill_column cols) cat_fills) (List.map_filter coerce_row ss)) =
         map (\<lambda>s. filled cols c fill (src_text s c)) (filter (\<lambda>s. src_period s \<noteq> None) ss)"
proof (induction ss)
  case Nil
  show ?case by (simp add: List.map_filter_simps)
next
  case (Cons s ss)
  show ?case
  proof (cases "coerce_row s")
    case None
    then show ?thesis
      using Cons coerce_row_None [of s] by (simp add: List.map_filter_simps)
  next
    case (Some r)
    then have "src_period s \<noteq> None" using coerce_row_None [of s] by simp
    then show ?thesis
      using Cons Some coerce_row_other [OF Some]
        fold_fill_cat [OF cat_fills_distinct assms, of cols r]
      by (simp add: List.map_filter_simps)
  qed
qed

text \<open>
  C4, as it holds. For each column of the loader's list: when the source lacks the
  column, every loaded row holds the column's label; when the source has it, a missing
  value and the texts \<^verbatim>\<open>nan\<close> and \<^verbatim>\<open>None\<close> become the label, and every other value is kept
  as the text it is, the empty text and surrounding white space included.
\<close>

theorem categorical_fill:
  assumes "load_data (Some src) = Inr df" and "(c, fill) \<in> set cat_fills"
  shows "map (\<lambda>r. cat r c) (rows df) =
         map (\<lambda>s. if c \<in> set (src_columns src)
                   then (case src_text s c of
                           Str v \<Rightarrow> if v = ''nan'' \<or> v = ''None'' then fill else v
                         | _ \<Rightarrow> fill)
                   else fill)
           (filter (\<lambda>s. src_period s \<noteq> None) (src_rows src))"
proof -
  have "rows df = map (fold (fill_column (src_columns src)) cat_fills)
                    (List.map_filter coerce_row (src_rows src))"
    using assms(1) by (auto simp: load_data_def split: if_splits)
  then show ?thesis
    using loaded_cat_column [OF assms(2), of "src_columns src" "src_rows src"]
    by (simp add: filled_def)
qed

theorem categorical_fill_witness:
  "(''distributor'', ''(sem distribuidora)'') \<in> set cat_fills \<and>
   (''store'', ''(sem plataforma)'') \<in> set cat_fills \<and>
   (case load_data (Some sample_src) of
      Inr df \<Rightarrow> map (\<lambda>r. cat r ''distributor'') (rows df) = ['''', ''(sem distribuidora)''] \<and>
                map (\<lambda>r. cat r ''store'') (rows df) = [''(sem plataforma)'', ''(sem plataforma)'']
    | Inl e \<Rightarrow> False)"
proof -
  have l: "load_data (Some sample_src) =
      Inr \<lparr>extra_columns = [''isrc''],
           rows = map (fold (fill_column (src_columns sample_src)) cat_fills)
                    (List.map_filter coerce_row (src_rows sample_src))\<rparr>"
    by (simp add: load_data_def sample_src_def fixed_columns_def cat_fills_def)
  have d: "(''distributor'', ''(sem distribuidora)'') \<in> set cat_fills"
    by (simp add: cat_fills_def)
  have s: "(''store'', ''(sem plataforma)'') \<in> set cat_fills"
    by (simp add: cat_fills_def)
  show ?thesis
    using categorical_fill [OF l d] categorical_fill [OF l s] d s
    by (simp add: l) (simp add: sample_src_def sample_src_row_def)
qed

text \<open>
  C4 as stated fails: an empty distributor stays empty instead of becoming the label, and
  an artist with white space around the name is not trimmed.
\<close>

theorem categorical_fill_counterexample:
  "case load_data (Some sample_src) of
      Inr df \<Rightarrow> map (\<lambda>r. cat r ''distributor'') (rows df) = ['''', ''(sem distribuidora)''] \<and>
                map (\<lambda>r. cat r ''artist'') (rows df) = ['' The Band '', ''(sem artista)''] \<and>
                strip '' The Band '' = ''The Band''
    | Inl e \<Rightarrow> False"
  by (simp add: load_data_def sample_src_def sample_src_row_def fixed_columns_def cat_fills_def
      coerce_row_def List.map_filter_simps fill_column_def replace_nan_def strip_def is_space_def)

lemma no_period_no_rows:
  "\<forall>s\<in>set ss. src_period s = None \<Longrightarrow> List.map_filter coerce_row ss = []"
  by (induction ss) (simp_all add: List.map_filter_simps coerce_row_def)

text \<open>
  C10. When no row of the source has a period that parses, the run ends in an error and
  renders nothing. When the loader itself succeeds, the loaded frame has no rows, the
  least and the greatest date are undefined, and it is the date control that fails.
\<close>

theorem empty_load_fails:
  assumes "\<forall>s\<in>set (src_rows src). src_period s = None"
  shows "(\<exists>e. dashboard eng order (Some src) ui = Inl e) \<and>
         (\<forall>df. load_data (Some src) = Inr df \<longrightarrow>
            rows df = [] \<and> dmin df = None \<and> dmax df = None \<and>
            date_input (dmin df) (dmax df) (picked ui) = Inl StreamlitAPIException \<and>
            dashboard eng order (Some src) ui = Inl StreamlitAPIException)"
proof -
  have r: "rows df = []" if "load_data (Some src) = Inr df" for df
    using that no_period_no_rows [OF assms] by (auto simp: load_data_def split: if_splits)
  have b: "rows df = [] \<and> dmin df = None \<and> dmax df = None \<and>
            date_input (dmin df) (dmax df) (picked ui) = Inl StreamlitAPIException \<and>
            dashboard eng order (Some src) ui = Inl StreamlitAPIException"
    if l: "load_data (Some src) = Inr df" for df
    using r [OF l] l by (simp add: dmin_def dmax_def series_min_def series_max_def dashboard_def)
  have a: "\<exists>e. dashboard eng order (Some src) ui = Inl e"
  proof (cases "load_data (Some src)")
    case (Inl e)
    then show ?thesis by (simp add: dashboard_def)
  next
    case (Inr df)
    then show ?thesis using b by blast
  qed
  show ?thesis using a b by blast
qed

theorem empty_load_fails_witness:
  "load_data (Some unparseable_src) = Inr \<lparr>extra_columns = [], rows = []\<rparr> \<and>
   dmin \<lparr>extra_columns = [], rows = []\<rparr> = None \<and>
   dashboard no_engine stable_lib (Some unparseable_src) sample_controls =
     Inl StreamlitAPIException"
proof -
  have h: "\<forall>s\<in>set (src_rows unparseable_src). src_period s = None"
    by (simp add: unparseable_src_def sample_src_row_def)
  have l: "load_data (Some unparseable_src) = Inr \<lparr>extra_columns = [], rows = []\<rparr>"
    by (simp add: load_data_def unparseable_src_def sample_src_row_def fixed_columns_def
        cat_fills_def coerce_row_def List.map_filter_simps)
  show ?thesis
    using empty_load_fails [OF h, of no_engine stable_lib sample_controls] l
    by simp
qed

subsection \<open>The grouped tables\<close>

















































end
